theory Spec2Isabelle
  imports Main
begin

unbundle bit_operations_syntax

section \<open>Python values\<close>

text \<open>
  The adapter of \<^verbatim>\<open>homeassistant/components/climate/nest.py\<close> caches whatever the
  vendor device handle returns, so a cached field holds a dynamically typed value:
  \<^verbatim>\<open>None\<close> before the first refresh, a number, a string, a boolean, or a
  low/high tuple. Numbers stand for the temperature and humidity readings; the adapter
  only stores them, compares them with \<^verbatim>\<open>None\<close> and tests their truth value.
\<close>

datatype pyval = PyNone | PyBool bool | PyNum int | PyStr string | PyTuple "pyval list"

text \<open>
  The exceptions that can leave a method of the adapter: the vendor client's
  \<^verbatim>\<open>nest.nest.APIError\<close>, any other fault the vendor client raises, and the two
  errors of Python's subscript operator.
\<close>

datatype exn = APIError string | OtherError string | TypeError | IndexError

text \<open>Truth value testing, as \<^verbatim>\<open>if x\<close>, \<^verbatim>\<open>not x\<close> and \<^verbatim>\<open>x and y\<close> do it.\<close>

fun truthy :: "pyval \<Rightarrow> bool" where
  "truthy PyNone = False"
| "truthy (PyBool b) = b"
| "truthy (PyNum n) = (n \<noteq> 0)"
| "truthy (PyStr s) = (s \<noteq> [])"
| "truthy (PyTuple xs) = (xs \<noteq> [])"

text \<open>
  \<^verbatim>\<open>x == 'literal'\<close>: a \<^verbatim>\<open>str\<close> equals only a \<^verbatim>\<open>str\<close> of the same
  characters, so \<^verbatim>\<open>None\<close>, booleans, numbers and tuples all compare unequal.
\<close>

definition py_eq_str :: "pyval \<Rightarrow> string \<Rightarrow> bool" where
  "py_eq_str v s = (v = PyStr s)"

text \<open>\<^verbatim>\<open>x in [s1, ..., sn]\<close> for a list of string constants.\<close>

definition py_in_strs :: "pyval \<Rightarrow> string list \<Rightarrow> bool" where
  "py_in_strs v xs = list_ex (py_eq_str v) xs"

text \<open>
  \<^verbatim>\<open>x[i]\<close> for a constant index \<open>i \<ge> 0\<close>: a tuple or a string shorter than
  \<open>i + 1\<close> raises \<^verbatim>\<open>IndexError\<close>, a value that is not subscriptable raises
  \<^verbatim>\<open>TypeError\<close>.
\<close>

fun subscript :: "pyval \<Rightarrow> nat \<Rightarrow> exn + pyval" where
  "subscript (PyTuple xs) i = (if i < length xs then Inr (xs ! i) else Inl IndexError)"
| "subscript (PyStr s) i = (if i < length s then Inr (PyStr [s ! i]) else Inl IndexError)"
| "subscript PyNone i = Inl TypeError"
| "subscript (PyBool b) i = Inl TypeError"
| "subscript (PyNum n) i = Inl TypeError"

text \<open>\<^verbatim>\<open>str.lower()\<close> on the ASCII letters.\<close>

definition lower_char :: "char \<Rightarrow> char" where
  "lower_char c =
     (let n = (of_char c :: nat) in if 65 \<le> n \<and> n \<le> 90 then char_of (n + 32) else c)"

definition py_lower :: "string \<Rightarrow> string" where
  "py_lower s = map lower_char s"

section \<open>Constants of the host application\<close>

text \<open>
  Modelled from the spec: the string constants \<^verbatim>\<open>STATE_*\<close> are imported from
  \<^verbatim>\<open>homeassistant.const\<close> and \<^verbatim>\<open>homeassistant.components.climate\<close>, which are
  not part of the source under study. The spec names their values: the operation modes
  off, heat, cool, auto and eco, the fan modes on and auto, and the unknown state.
  \<^verbatim>\<open>NEST_MODE_HEAT_COOL\<close> is defined in the source itself.
\<close>

definition STATE_AUTO :: string where "STATE_AUTO = ''auto''"
definition STATE_COOL :: string where "STATE_COOL = ''cool''"
definition STATE_HEAT :: string where "STATE_HEAT = ''heat''"
definition STATE_ECO :: string where "STATE_ECO = ''eco''"
definition STATE_ON :: string where "STATE_ON = ''on''"
definition STATE_OFF :: string where "STATE_OFF = ''off''"
definition STATE_UNKNOWN :: string where "STATE_UNKNOWN = ''unknown''"

definition NEST_MODE_HEAT_COOL :: string where "NEST_MODE_HEAT_COOL = ''heat-cool''"

text \<open>
  Modelled from the spec: \<^verbatim>\<open>TEMP_CELSIUS\<close> and \<^verbatim>\<open>TEMP_FAHRENHEIT\<close> come from
  \<^verbatim>\<open>homeassistant.const\<close>; the spec calls them a unit enum.
\<close>

datatype temp_unit = TEMP_CELSIUS | TEMP_FAHRENHEIT

text \<open>
  Modelled from the spec: the keyword names \<^verbatim>\<open>ATTR_*\<close> under which
  \<^verbatim>\<open>set_temperature\<close> receives the single target and the low and high targets are
  host constants too; they are three distinct keys of the keyword dictionary.
\<close>

datatype attr = ATTR_TEMPERATURE | ATTR_TARGET_TEMP_HIGH | ATTR_TARGET_TEMP_LOW

type_synonym kwargs = "attr \<rightharpoonup> pyval"

text \<open>\<^verbatim>\<open>kwargs.get(key)\<close>: \<^verbatim>\<open>None\<close> for a key that is absent.\<close>

definition kwargs_get :: "kwargs \<Rightarrow> attr \<Rightarrow> pyval" where
  "kwargs_get kw k = (case kw k of None \<Rightarrow> PyNone | Some v \<Rightarrow> v)"

text \<open>
  The feature flags \<^verbatim>\<open>SUPPORT_*\<close> are integers of the host's climate component,
  combined with Python's bitwise or. Their values are in neither the source nor the spec,
  so the constructor takes them as a parameter.
\<close>

record climate_support =
  SUPPORT_TARGET_TEMPERATURE :: int
  SUPPORT_TARGET_TEMPERATURE_HIGH :: int
  SUPPORT_TARGET_TEMPERATURE_LOW :: int
  SUPPORT_OPERATION_MODE :: int
  SUPPORT_AWAY_MODE :: int
  SUPPORT_FAN_MODE :: int

text \<open>How the host tests a flag: \<^verbatim>\<open>supported_features & FLAG\<close> is non-zero.\<close>

definition supports :: "int \<Rightarrow> int \<Rightarrow> bool" where
  "supports flags f = (flags AND f \<noteq> 0)"

section \<open>The vendor objects\<close>

text \<open>
  The device handle and the structure handle of the vendor client, as the fields the
  adapter reads. The three capability flags are booleans.
\<close>

record device =
  can_heat :: bool
  can_cool :: bool
  has_fan :: bool
  device_where :: pyval
  device_name :: pyval
  humidity :: pyval
  temperature :: pyval
  mode :: pyval
  target :: pyval
  fan :: pyval
  eco_temperature :: pyval
  locked_temperature :: pyval
  min_temperature :: pyval
  max_temperature :: pyval
  is_locked :: pyval
  temperature_scale :: pyval
  serial :: pyval

record nest_structure =
  away :: pyval

text \<open>
  The vendor client's property setters are not part of the source: a write goes to the
  remote service and may be rejected. Each setter is a parameter here: it takes the
  handle and the written value and returns the handle afterwards together with the
  exception it raised, if any.
\<close>

record vendor =
  write_target :: "device \<Rightarrow> pyval \<Rightarrow> device \<times> exn option"
  write_mode :: "device \<Rightarrow> pyval \<Rightarrow> device \<times> exn option"
  write_fan :: "device \<Rightarrow> pyval \<Rightarrow> device \<times> exn option"
  write_away :: "nest_structure \<Rightarrow> pyval \<Rightarrow> nest_structure \<times> exn option"

text \<open>A structure and a device whose setters store the written value as it is.\<close>

definition verbatim_vendor :: vendor where
  "verbatim_vendor =
     \<lparr>write_target = (\<lambda>d x. (d\<lparr>target := x\<rparr>, None)),
      write_mode = (\<lambda>d x. (d\<lparr>mode := x\<rparr>, None)),
      write_fan = (\<lambda>d x. (d\<lparr>fan := x\<rparr>, None)),
      write_away = (\<lambda>s x. (s\<lparr>away := x\<rparr>, None))\<rparr>"

text \<open>A remote service that rejects every write and leaves the handles as they are.\<close>

definition rejecting_vendor :: "string \<Rightarrow> vendor" where
  "rejecting_vendor msg =
     \<lparr>write_target = (\<lambda>d x. (d, Some (APIError msg))),
      write_mode = (\<lambda>d x. (d, Some (APIError msg))),
      write_fan = (\<lambda>d x. (d, Some (APIError msg))),
      write_away = (\<lambda>s x. (s, Some (APIError msg)))\<rparr>"

section \<open>The adapter\<close>

text \<open>
  The effects of a method beyond the adapter's own fields: the records written to the
  logger, the refreshes scheduled with the host (\<^verbatim>\<open>schedule_update_ha_state\<close>, with
  its force flag), and the calls made to the vendor's setters, in order.
\<close>

datatype log_entry = LogDebug string pyval | LogError string pyval

datatype vendor_call = SetTarget pyval | SetMode pyval | SetFan pyval | SetAway pyval

record nest_thermostat =
  self_unit :: temp_unit
  self_structure :: nest_structure
  self_device :: device
  self_fan_list :: "string list"
  self_support_flags :: int
  self_operation_list :: "string list"
  self_has_fan :: bool
  self_away :: pyval
  self_location :: pyval
  self_name :: pyval
  self_humidity :: pyval
  self_target_temperature :: pyval
  self_temperature :: pyval
  self_temperature_scale :: "temp_unit option"
  self_mode :: pyval
  self_fan :: pyval
  self_eco_temperature :: pyval
  self_is_locked :: pyval
  self_locked_temperature :: pyval
  self_min_temperature :: pyval
  self_max_temperature :: pyval
  logged :: "log_entry list"
  scheduled_updates :: "bool list"
  vendor_calls :: "vendor_call list"

text \<open>
  A method returns the adapter afterwards, or the exception that left it together with
  the adapter as the exception found it.
\<close>

type_synonym outcome = "(exn \<times> nest_thermostat) + nest_thermostat"

definition final :: "outcome \<Rightarrow> nest_thermostat" where
  "final r = (case r of Inl (e, s) \<Rightarrow> s | Inr s \<Rightarrow> s)"

definition raised :: "outcome \<Rightarrow> exn option" where
  "raised r = (case r of Inl (e, s) \<Rightarrow> Some e | Inr s \<Rightarrow> None)"

subsection \<open>Construction\<close>

definition NestThermostat_init ::
  "climate_support \<Rightarrow> nest_structure \<Rightarrow> device \<Rightarrow> temp_unit \<Rightarrow> nest_thermostat" where
  "NestThermostat_init c structure dev temp_unit =
     (let flags0 = (SUPPORT_TARGET_TEMPERATURE c OR SUPPORT_OPERATION_MODE c)
                     OR SUPPORT_AWAY_MODE c;
          ops0 = [STATE_OFF];
          ops1 = (if can_heat dev then ops0 @ [STATE_HEAT] else ops0);
          ops2 = (if can_cool dev then ops1 @ [STATE_COOL] else ops1);
          ops3 = (if can_heat dev \<and> can_cool dev then ops2 @ [STATE_AUTO] else ops2);
          flags1 = (if can_heat dev \<and> can_cool dev
                    then (flags0 OR SUPPORT_TARGET_TEMPERATURE_HIGH c)
                           OR SUPPORT_TARGET_TEMPERATURE_LOW c
                    else flags0);
          ops4 = ops3 @ [STATE_ECO];
          fan_present = has_fan dev;
          flags2 = (if fan_present then flags1 OR SUPPORT_FAN_MODE c else flags1)
      in \<lparr>self_unit = temp_unit,
          self_structure = structure,
          self_device = dev,
          self_fan_list = [STATE_ON, STATE_AUTO],
          self_support_flags = flags2,
          self_operation_list = ops4,
          self_has_fan = fan_present,
          self_away = PyNone,
          self_location = PyNone,
          self_name = PyNone,
          self_humidity = PyNone,
          self_target_temperature = PyNone,
          self_temperature = PyNone,
          self_temperature_scale = None,
          self_mode = PyNone,
          self_fan = PyNone,
          self_eco_temperature = PyNone,
          self_is_locked = PyNone,
          self_locked_temperature = PyNone,
          self_min_temperature = PyNone,
          self_max_temperature = PyNone,
          logged = [],
          scheduled_updates = [],
          vendor_calls = []\<rparr>)"

subsection \<open>Read accessors\<close>

definition supported_features :: "nest_thermostat \<Rightarrow> int" where
  "supported_features s = self_support_flags s"

definition operation_list :: "nest_thermostat \<Rightarrow> string list" where
  "operation_list s = self_operation_list s"

definition is_away_mode_on :: "nest_thermostat \<Rightarrow> pyval" where
  "is_away_mode_on s = self_away s"

definition current_operation :: "nest_thermostat \<Rightarrow> pyval" where
  "current_operation s =
     (if py_in_strs (self_mode s) [STATE_HEAT, STATE_COOL, STATE_OFF, STATE_ECO]
      then self_mode s
      else if py_eq_str (self_mode s) NEST_MODE_HEAT_COOL then PyStr STATE_AUTO
      else PyStr STATE_UNKNOWN)"

definition target_temperature :: "nest_thermostat \<Rightarrow> pyval" where
  "target_temperature s =
     (if \<not> py_eq_str (self_mode s) NEST_MODE_HEAT_COOL \<and>
         \<not> py_eq_str (self_mode s) STATE_ECO \<and>
         \<not> truthy (is_away_mode_on s)
      then self_target_temperature s
      else PyNone)"

text \<open>
  In \<^verbatim>\<open>(self.is_away_mode_on or self._mode == STATE_ECO) and self._eco_temperature[0]\<close>
  the subscript is evaluated only when the left operand is true, and it can raise.
\<close>

definition target_temperature_low :: "nest_thermostat \<Rightarrow> exn + pyval" where
  "target_temperature_low s =
     (let otherwise =
            (if py_eq_str (self_mode s) NEST_MODE_HEAT_COOL
             then subscript (self_target_temperature s) 0
             else Inr PyNone)
      in if truthy (is_away_mode_on s) \<or> py_eq_str (self_mode s) STATE_ECO
         then (case subscript (self_eco_temperature s) 0 of
                 Inl e \<Rightarrow> Inl e
               | Inr b \<Rightarrow> if truthy b then subscript (self_eco_temperature s) 0 else otherwise)
         else otherwise)"

definition target_temperature_high :: "nest_thermostat \<Rightarrow> exn + pyval" where
  "target_temperature_high s =
     (let otherwise =
            (if py_eq_str (self_mode s) NEST_MODE_HEAT_COOL
             then subscript (self_target_temperature s) 1
             else Inr PyNone)
      in if truthy (is_away_mode_on s) \<or> py_eq_str (self_mode s) STATE_ECO
         then (case subscript (self_eco_temperature s) 1 of
                 Inl e \<Rightarrow> Inl e
               | Inr b \<Rightarrow> if truthy b then subscript (self_eco_temperature s) 1 else otherwise)
         else otherwise)"

definition current_fan_mode :: "nest_thermostat \<Rightarrow> pyval" where
  "current_fan_mode s =
     (if self_has_fan s
      then (if truthy (self_fan s) then PyStr STATE_ON else PyStr STATE_AUTO)
      else PyNone)"

definition fan_list :: "nest_thermostat \<Rightarrow> string list option" where
  "fan_list s = (if self_has_fan s then Some (self_fan_list s) else None)"

subsection \<open>Effects\<close>

definition log_debug :: "string \<Rightarrow> pyval \<Rightarrow> nest_thermostat \<Rightarrow> nest_thermostat" where
  "log_debug msg arg s = s\<lparr>logged := logged s @ [LogDebug msg arg]\<rparr>"

definition log_error :: "string \<Rightarrow> pyval \<Rightarrow> nest_thermostat \<Rightarrow> nest_thermostat" where
  "log_error msg arg s = s\<lparr>logged := logged s @ [LogError msg arg]\<rparr>"

definition schedule_update_ha_state :: "bool \<Rightarrow> nest_thermostat \<Rightarrow> nest_thermostat" where
  "schedule_update_ha_state force_refresh s =
     s\<lparr>scheduled_updates := scheduled_updates s @ [force_refresh]\<rparr>"

text \<open>\<^verbatim>\<open>self._device.target = x\<close>, and the same for the other three vendor fields.\<close>

definition device_target_assign :: "vendor \<Rightarrow> pyval \<Rightarrow> nest_thermostat \<Rightarrow> outcome" where
  "device_target_assign v x s =
     (let (d, r) = write_target v (self_device s) x;
          s' = s\<lparr>self_device := d, vendor_calls := vendor_calls s @ [SetTarget x]\<rparr>
      in case r of None \<Rightarrow> Inr s' | Some e \<Rightarrow> Inl (e, s'))"

definition device_mode_assign :: "vendor \<Rightarrow> pyval \<Rightarrow> nest_thermostat \<Rightarrow> outcome" where
  "device_mode_assign v x s =
     (let (d, r) = write_mode v (self_device s) x;
          s' = s\<lparr>self_device := d, vendor_calls := vendor_calls s @ [SetMode x]\<rparr>
      in case r of None \<Rightarrow> Inr s' | Some e \<Rightarrow> Inl (e, s'))"

definition device_fan_assign :: "vendor \<Rightarrow> pyval \<Rightarrow> nest_thermostat \<Rightarrow> outcome" where
  "device_fan_assign v x s =
     (let (d, r) = write_fan v (self_device s) x;
          s' = s\<lparr>self_device := d, vendor_calls := vendor_calls s @ [SetFan x]\<rparr>
      in case r of None \<Rightarrow> Inr s' | Some e \<Rightarrow> Inl (e, s'))"

definition structure_away_assign :: "vendor \<Rightarrow> pyval \<Rightarrow> nest_thermostat \<Rightarrow> outcome" where
  "structure_away_assign v x s =
     (let (st, r) = write_away v (self_structure s) x;
          s' = s\<lparr>self_structure := st, vendor_calls := vendor_calls s @ [SetAway x]\<rparr>
      in case r of None \<Rightarrow> Inr s' | Some e \<Rightarrow> Inl (e, s'))"

subsection \<open>Commands\<close>

text \<open>
  The first half of \<^verbatim>\<open>set_temperature\<close>, up to the \<^verbatim>\<open>try\<close>: the value of the
  local \<^verbatim>\<open>temp\<close> and the adapter after the debug record.
\<close>

definition set_temperature_temp :: "kwargs \<Rightarrow> nest_thermostat \<Rightarrow> pyval \<times> nest_thermostat" where
  "set_temperature_temp kw s =
     (let target_temp_low = kwargs_get kw ATTR_TARGET_TEMP_LOW;
          target_temp_high = kwargs_get kw ATTR_TARGET_TEMP_HIGH
      in if py_eq_str (self_mode s) NEST_MODE_HEAT_COOL
         then (if target_temp_low \<noteq> PyNone \<and> target_temp_high \<noteq> PyNone
               then (let temp = PyTuple [target_temp_low, target_temp_high]
                     in (temp, log_debug ''Nest set_temperature-output-value=%s'' temp s))
               else (PyNone, s))
         else (let temp = kwargs_get kw ATTR_TEMPERATURE
               in (temp, log_debug ''Nest set_temperature-output-value=%s'' temp s)))"

definition set_temperature :: "vendor \<Rightarrow> kwargs \<Rightarrow> nest_thermostat \<Rightarrow> outcome" where
  "set_temperature v kw s =
     (let (temp, s1) = set_temperature_temp kw s
      in if temp \<noteq> PyNone
         then (case device_target_assign v temp s1 of
                 Inr s2 \<Rightarrow> Inr s2
               | Inl (APIError api_error, s2) \<Rightarrow>
                   Inr (schedule_update_ha_state True
                          (log_error ''An error occurred while setting temperature: %s''
                             (PyStr api_error) s2))
               | Inl (e, s2) \<Rightarrow> Inl (e, s2))
         else Inr s1)"

definition set_operation_mode :: "vendor \<Rightarrow> string \<Rightarrow> nest_thermostat \<Rightarrow> outcome" where
  "set_operation_mode v operation_mode s =
     (if py_in_strs (PyStr operation_mode) [STATE_HEAT, STATE_COOL, STATE_OFF, STATE_ECO]
      then device_mode_assign v (PyStr operation_mode) s
      else if py_eq_str (PyStr operation_mode) STATE_AUTO
      then device_mode_assign v (PyStr NEST_MODE_HEAT_COOL) s
      else device_mode_assign v (PyStr STATE_OFF)
             (log_error (''An error occurred while setting device mode. '' @
                         ''Invalid operation mode: %s'') (PyStr operation_mode) s))"

definition turn_away_mode_on :: "vendor \<Rightarrow> nest_thermostat \<Rightarrow> outcome" where
  "turn_away_mode_on v s = structure_away_assign v (PyBool True) s"

definition turn_away_mode_off :: "vendor \<Rightarrow> nest_thermostat \<Rightarrow> outcome" where
  "turn_away_mode_off v s = structure_away_assign v (PyBool False) s"

definition set_fan_mode :: "vendor \<Rightarrow> string \<Rightarrow> nest_thermostat \<Rightarrow> outcome" where
  "set_fan_mode v fan_mode s =
     (if self_has_fan s then device_fan_assign v (PyStr (py_lower fan_mode)) s else Inr s)"

subsection \<open>Refresh\<close>

definition update :: "nest_thermostat \<Rightarrow> nest_thermostat" where
  "update s =
     s\<lparr>self_location := device_where (self_device s),
       self_name := device_name (self_device s),
       self_humidity := humidity (self_device s),
       self_temperature := temperature (self_device s),
       self_mode := mode (self_device s),
       self_target_temperature := target (self_device s),
       self_fan := fan (self_device s),
       self_away := PyBool (py_eq_str (away (self_structure s)) ''away''),
       self_eco_temperature := eco_temperature (self_device s),
       self_locked_temperature := locked_temperature (self_device s),
       self_min_temperature := min_temperature (self_device s),
       self_max_temperature := max_temperature (self_device s),
       self_is_locked := is_locked (self_device s),
       self_temperature_scale :=
         (if py_eq_str (temperature_scale (self_device s)) ''C''
          then Some TEMP_CELSIUS else Some TEMP_FAHRENHEIT)\<rparr>"

section \<open>Notions the properties are stated with\<close>

text \<open>
  The four fields that the constructor computes from the device's capabilities: the
  feature flags, the operation list, the fan capability and the fan-mode list.
\<close>

definition static_fields :: "nest_thermostat \<Rightarrow> int \<times> string list \<times> bool \<times> string list" where
  "static_fields s =
     (self_support_flags s, self_operation_list s, self_has_fan s, self_fan_list s)"

text \<open>
  The translation of a requested operation mode to the vendor's token as the spec words
  it: heat, cool, off and eco pass through unchanged, auto becomes the combined heat-cool
  token, and anything else falls back to off.
\<close>

definition spec_device_mode :: "string \<Rightarrow> string" where
  "spec_device_mode m =
     (if m \<in> {''heat'', ''cool'', ''off'', ''eco''} then m
      else if m = ''auto'' then ''heat-cool''
      else ''off'')"

section \<open>Example handles\<close>

text \<open>
  Concrete handles on which the theorems below are instantiated: the flag values the
  host used at the time of the source, a thermostat that heats, cools and has a fan, and
  a structure that is away.
\<close>

definition example_support :: climate_support where
  "example_support =
     \<lparr>SUPPORT_TARGET_TEMPERATURE = 1,
      SUPPORT_TARGET_TEMPERATURE_HIGH = 2,
      SUPPORT_TARGET_TEMPERATURE_LOW = 4,
      SUPPORT_OPERATION_MODE = 128,
      SUPPORT_AWAY_MODE = 1024,
      SUPPORT_FAN_MODE = 64\<rparr>"

definition example_device :: device where
  "example_device =
     \<lparr>can_heat = True, can_cool = True, has_fan = True,
      device_where = PyStr ''Hallway'', device_name = PyStr ''Hallway'',
      humidity = PyNum 40, temperature = PyNum 20,
      mode = PyStr ''heat-cool'', target = PyTuple [PyNum 18, PyNum 24],
      fan = PyBool False, eco_temperature = PyTuple [PyNum 16, PyNum 22],
      locked_temperature = PyTuple [PyNum 15, PyNum 28],
      min_temperature = PyNum 9, max_temperature = PyNum 32,
      is_locked = PyBool False, temperature_scale = PyStr ''C'',
      serial = PyStr ''01AA''\<rparr>"

definition example_structure :: nest_structure where
  "example_structure = \<lparr>away = PyStr ''away''\<rparr>"

definition example_thermostat :: nest_thermostat where
  "example_thermostat =
     NestThermostat_init example_support example_structure example_device TEMP_CELSIUS"

definition home_thermostat :: nest_thermostat where
  "home_thermostat =
     update (NestThermostat_init example_support \<lparr>away = PyStr ''home''\<rparr> example_device
       TEMP_CELSIUS)"

section \<open>Basic facts\<close>

lemmas state_defs = STATE_AUTO_def STATE_COOL_def STATE_HEAT_def STATE_ECO_def
  STATE_ON_def STATE_OFF_def STATE_UNKNOWN_def NEST_MODE_HEAT_COOL_def

lemmas effect_defs = log_debug_def log_error_def schedule_update_ha_state_def

lemma py_in_strs_simps [simp]:
  "py_in_strs v [] = False"
  "py_in_strs v (x # xs) = (v = PyStr x \<or> py_in_strs v xs)"
  by (simp_all add: py_in_strs_def py_eq_str_def)

lemma update_example:
  "self_away (update example_thermostat) = PyBool True"
  "self_mode (update example_thermostat) = PyStr ''heat-cool''"
  "self_target_temperature (update example_thermostat) = PyTuple [PyNum 18, PyNum 24]"
  "self_eco_temperature (update example_thermostat) = PyTuple [PyNum 16, PyNum 22]"
  by (simp_all add: update_def example_thermostat_def NestThermostat_init_def Let_def
      example_device_def example_structure_def py_eq_str_def)

lemma pow2_and: "(2::int) ^ k AND 2 ^ j = (if k = j then 2 ^ k else 0)"
  by (rule bit_eqI) (auto simp: bit_and_iff bit_exp_iff)

lemma supports_or: "supports (a OR b) f = (supports a f \<or> supports b f)"
  unfolding supports_def by (auto simp add: bit.conj_disj_distrib2 or_eq_0_iff)

lemma supports_pow2: "supports (2 ^ k) (2 ^ j) = (k = j)"
  unfolding supports_def by (simp add: pow2_and)

section \<open>Construction\<close>

lemma init_operation_list:
  "operation_list (NestThermostat_init c st d u) =
     [''off''] @ (if can_heat d then [''heat''] else []) @
     (if can_cool d then [''cool''] else []) @
     (if can_heat d \<and> can_cool d then [''auto''] else []) @ [''eco'']"
  by (simp add: operation_list_def NestThermostat_init_def Let_def state_defs)

lemma init_support_flags:
  "supported_features (NestThermostat_init c st d u) =
     (let base = (SUPPORT_TARGET_TEMPERATURE c OR SUPPORT_OPERATION_MODE c)
                   OR SUPPORT_AWAY_MODE c;
          dual = (if can_heat d \<and> can_cool d
                  then (base OR SUPPORT_TARGET_TEMPERATURE_HIGH c)
                         OR SUPPORT_TARGET_TEMPERATURE_LOW c
                  else base)
      in if has_fan d then dual OR SUPPORT_FAN_MODE c else dual)"
  by (simp add: supported_features_def NestThermostat_init_def Let_def)

text \<open>
  C5: construction builds the operation list as off, then heat iff the device can heat,
  then cool iff it can cool, then auto iff it can do both, then eco; when the six feature
  flags are distinct single bits, the feature set holds the two dual-setpoint flags iff
  the device can both heat and cool, and the fan flag iff the device has a fan. A device
  that can neither heat nor cool gets exactly off and eco, one that can do both gets
  off, heat, cool, auto, eco.
\<close>

theorem init_operation_list_and_flags:
  assumes "SUPPORT_TARGET_TEMPERATURE c = 2 ^ k1"
      and "SUPPORT_TARGET_TEMPERATURE_HIGH c = 2 ^ k2"
      and "SUPPORT_TARGET_TEMPERATURE_LOW c = 2 ^ k3"
      and "SUPPORT_OPERATION_MODE c = 2 ^ k4"
      and "SUPPORT_AWAY_MODE c = 2 ^ k5"
      and "SUPPORT_FAN_MODE c = 2 ^ k6"
      and "distinct [k1, k2, k3, k4, k5, k6]"
  shows "operation_list (NestThermostat_init c st d u) =
           [''off''] @ (if can_heat d then [''heat''] else []) @
           (if can_cool d then [''cool''] else []) @
           (if can_heat d \<and> can_cool d then [''auto''] else []) @ [''eco''] \<and>
         supports (supported_features (NestThermostat_init c st d u))
           (SUPPORT_TARGET_TEMPERATURE_HIGH c) = (can_heat d \<and> can_cool d) \<and>
         supports (supported_features (NestThermostat_init c st d u))
           (SUPPORT_TARGET_TEMPERATURE_LOW c) = (can_heat d \<and> can_cool d) \<and>
         supports (supported_features (NestThermostat_init c st d u))
           (SUPPORT_FAN_MODE c) = has_fan d \<and>
         operation_list
           (NestThermostat_init c st (d\<lparr>can_heat := False, can_cool := False\<rparr>) u) =
           [''off'', ''eco''] \<and>
         operation_list
           (NestThermostat_init c st (d\<lparr>can_heat := True, can_cool := True\<rparr>) u) =
           [''off'', ''heat'', ''cool'', ''auto'', ''eco'']"
proof -
  have flags: "\<And>f. supports (supported_features (NestThermostat_init c st d u)) (2 ^ f) =
      (f = k1 \<or> f = k4 \<or> f = k5 \<or> (can_heat d \<and> can_cool d \<and> (f = k2 \<or> f = k3)) \<or>
       (has_fan d \<and> f = k6))"
    using assms(1-6)
    by (auto simp add: init_support_flags Let_def supports_or supports_pow2)
  have "supports (supported_features (NestThermostat_init c st d u))
           (SUPPORT_TARGET_TEMPERATURE_HIGH c) = (can_heat d \<and> can_cool d)"
    using assms(7) unfolding assms(2) flags by auto
  moreover have "supports (supported_features (NestThermostat_init c st d u))
           (SUPPORT_TARGET_TEMPERATURE_LOW c) = (can_heat d \<and> can_cool d)"
    using assms(7) unfolding assms(3) flags by auto
  moreover have "supports (supported_features (NestThermostat_init c st d u))
           (SUPPORT_FAN_MODE c) = has_fan d"
    using assms(7) unfolding assms(6) flags by auto
  ultimately show ?thesis
    by (simp add: init_operation_list)
qed

theorem init_operation_list_and_flags_witness:
  "operation_list (NestThermostat_init example_support example_structure
       (example_device\<lparr>can_cool := False\<rparr>) TEMP_CELSIUS) = [''off'', ''heat'', ''eco''] \<and>
   \<not> supports (supported_features (NestThermostat_init example_support example_structure
       (example_device\<lparr>can_cool := False\<rparr>) TEMP_CELSIUS)) 2 \<and>
   \<not> supports (supported_features (NestThermostat_init example_support example_structure
       (example_device\<lparr>can_cool := False\<rparr>) TEMP_CELSIUS)) 4 \<and>
   supports (supported_features (NestThermostat_init example_support example_structure
       (example_device\<lparr>can_cool := False\<rparr>) TEMP_CELSIUS)) 64"
  using init_operation_list_and_flags [of example_support 0 1 2 7 10 6 example_structure
      "example_device\<lparr>can_cool := False\<rparr>" TEMP_CELSIUS]
  by (simp add: example_support_def example_device_def)

section \<open>Read accessors\<close>

text \<open>
  C6: \<^verbatim>\<open>current_operation\<close> returns the cached mode itself when it is heat, cool,
  off or eco, auto when it is the combined heat-cool token, and the unknown state for
  every other value, among them the \<^verbatim>\<open>None\<close> that the field holds before the first
  refresh.
\<close>

theorem current_operation_mapping:
  "current_operation s =
     (if self_mode s \<in> {PyStr ''heat'', PyStr ''cool'', PyStr ''off'', PyStr ''eco''}
      then self_mode s
      else if self_mode s = PyStr ''heat-cool'' then PyStr ''auto''
      else PyStr ''unknown'') \<and>
   current_operation (s\<lparr>self_mode := PyNone\<rparr>) = PyStr ''unknown'' \<and>
   current_operation (NestThermostat_init c st d u) = PyStr ''unknown''"
  by (simp add: current_operation_def py_eq_str_def state_defs NestThermostat_init_def Let_def)

text \<open>
  C8: \<^verbatim>\<open>current_fan_mode\<close> returns on when the device has a fan and the cached fan
  field is truthy, auto when the device has a fan and the cached fan field is falsy, and
  \<^verbatim>\<open>None\<close> when the device has no fan; after construction and a refresh the two
  inputs are the device's \<^verbatim>\<open>has_fan\<close> and \<^verbatim>\<open>fan\<close>.
\<close>

theorem current_fan_mode_cases:
  "current_fan_mode s =
     (if self_has_fan s
      then (if truthy (self_fan s) then PyStr ''on'' else PyStr ''auto'')
      else PyNone) \<and>
   current_fan_mode (update (NestThermostat_init c st d u)) =
     (if has_fan d
      then (if truthy (fan d) then PyStr ''on'' else PyStr ''auto'')
      else PyNone)"
  by (simp add: current_fan_mode_def state_defs update_def NestThermostat_init_def Let_def)

text \<open>
  C3: where the eco range is a low/high tuple whenever it is consulted (away-mode on or
  mode eco) and the cached target is a low/high tuple in combined heat-cool mode,
  \<^verbatim>\<open>target_temperature_low\<close> returns the eco low bound if away-mode is on or the mode
  is eco and that bound is truthy; otherwise the low half of the cached range if the mode
  is the combined heat-cool token; otherwise \<^verbatim>\<open>None\<close>. \<^verbatim>\<open>target_temperature_high\<close>
  does the same with the high bounds. With away-mode on and eco range (16, 22) the low
  accessor returns 16 for every cached mode.
\<close>

theorem target_temperature_bounds_precedence:
  assumes eco: "truthy (self_away s) \<or> self_mode s = PyStr ''eco'' \<Longrightarrow>
                  self_eco_temperature s = PyTuple [eco_low, eco_high]"
      and rng: "self_mode s = PyStr ''heat-cool'' \<Longrightarrow>
                  self_target_temperature s = PyTuple [range_low, range_high]"
  shows "target_temperature_low s =
           Inr (if (truthy (self_away s) \<or> self_mode s = PyStr ''eco'') \<and> truthy eco_low
                then eco_low
                else if self_mode s = PyStr ''heat-cool'' then range_low
                else PyNone) \<and>
         target_temperature_high s =
           Inr (if (truthy (self_away s) \<or> self_mode s = PyStr ''eco'') \<and> truthy eco_high
                then eco_high
                else if self_mode s = PyStr ''heat-cool'' then range_high
                else PyNone) \<and>
         (\<forall>m. target_temperature_low
                (s\<lparr>self_away := PyBool True,
                   self_eco_temperature := PyTuple [PyNum 16, PyNum 22],
                   self_mode := m\<rparr>) = Inr (PyNum 16))"
proof -
  have low: "target_temperature_low s =
           Inr (if (truthy (self_away s) \<or> self_mode s = PyStr ''eco'') \<and> truthy eco_low
                then eco_low
                else if self_mode s = PyStr ''heat-cool'' then range_low
                else PyNone)"
    using eco rng
    by (auto simp add: target_temperature_low_def is_away_mode_on_def py_eq_str_def
        state_defs Let_def)
  have high: "target_temperature_high s =
           Inr (if (truthy (self_away s) \<or> self_mode s = PyStr ''eco'') \<and> truthy eco_high
                then eco_high
                else if self_mode s = PyStr ''heat-cool'' then range_high
                else PyNone)"
    using eco rng
    by (auto simp add: target_temperature_high_def is_away_mode_on_def py_eq_str_def
        state_defs Let_def)
  have away_on: "\<forall>m. target_temperature_low
                (s\<lparr>self_away := PyBool True,
                   self_eco_temperature := PyTuple [PyNum 16, PyNum 22],
                   self_mode := m\<rparr>) = Inr (PyNum 16)"
    by (simp add: target_temperature_low_def is_away_mode_on_def Let_def)
  from low high away_on show ?thesis by simp
qed

theorem target_temperature_bounds_precedence_witness:
  "target_temperature_low (update example_thermostat) = Inr (PyNum 16) \<and>
   target_temperature_high (update example_thermostat) = Inr (PyNum 22)"
  using target_temperature_bounds_precedence [of "update example_thermostat"
      "PyNum 16" "PyNum 22" "PyNum 18" "PyNum 24"]
  by (simp add: update_example)

text \<open>
  C4, as the spec states it, fails: in combined heat-cool mode with cached range
  (18, 24), away-mode on and eco range (16, 22), the low and high accessors return the
  eco bounds 16 and 22, not 18 and 24.
\<close>

theorem heat_cool_range_counterexample:
  "self_mode (update example_thermostat) = PyStr ''heat-cool'' \<and>
   self_target_temperature (update example_thermostat) = PyTuple [PyNum 18, PyNum 24] \<and>
   target_temperature_low (update example_thermostat) \<noteq> Inr (PyNum 18) \<and>
   target_temperature_high (update example_thermostat) \<noteq> Inr (PyNum 24)"
  by (simp add: update_example target_temperature_low_def target_temperature_high_def
      is_away_mode_on_def Let_def)

text \<open>
  C4, amended: \<^verbatim>\<open>target_temperature\<close> returns the cached single setpoint exactly when
  the cached mode is neither the combined heat-cool token nor eco and away-mode is off,
  and \<^verbatim>\<open>None\<close> in every other case. With the mode equal to the combined heat-cool
  token and cached range (18, 24) it returns \<^verbatim>\<open>None\<close>, while the low accessor
  returns 18 and the high accessor 24 unless away-mode is on and the corresponding eco
  bound is truthy, in which case they return that eco bound.
\<close>

theorem target_temperature_single_setpoint:
  assumes "self_mode s = PyStr ''heat-cool''"
      and "self_target_temperature s = PyTuple [PyNum 18, PyNum 24]"
      and "truthy (self_away s) \<Longrightarrow> self_eco_temperature s = PyTuple [eco_low, eco_high]"
  shows "(\<forall>t. target_temperature t =
            (if self_mode t \<noteq> PyStr ''heat-cool'' \<and> self_mode t \<noteq> PyStr ''eco'' \<and>
                \<not> truthy (self_away t)
             then self_target_temperature t else PyNone)) \<and>
         target_temperature s = PyNone \<and>
         target_temperature_low s =
           Inr (if truthy (self_away s) \<and> truthy eco_low then eco_low else PyNum 18) \<and>
         target_temperature_high s =
           Inr (if truthy (self_away s) \<and> truthy eco_high then eco_high else PyNum 24)"
  using assms
  by (auto simp add: target_temperature_def target_temperature_low_def
      target_temperature_high_def is_away_mode_on_def py_eq_str_def state_defs Let_def)

theorem target_temperature_single_setpoint_witness:
  "target_temperature home_thermostat = PyNone \<and>
   target_temperature_low home_thermostat = Inr (PyNum 18) \<and>
   target_temperature_high home_thermostat = Inr (PyNum 24)"
proof -
  have "self_mode home_thermostat = PyStr ''heat-cool''"
    and "self_target_temperature home_thermostat = PyTuple [PyNum 18, PyNum 24]"
    and "\<not> truthy (self_away home_thermostat)"
    by (simp_all add: home_thermostat_def update_def NestThermostat_init_def Let_def
        example_device_def py_eq_str_def)
  then show ?thesis
    using target_temperature_single_setpoint [of home_thermostat PyNone PyNone]
    by simp
qed

section \<open>Commands\<close>

subsection \<open>The static fields\<close>

lemma static_update: "static_fields (update s) = static_fields s"
  by (simp add: update_def static_fields_def)

lemma static_set_temperature_temp:
  "static_fields (snd (set_temperature_temp kw s)) = static_fields s"
  by (simp add: set_temperature_temp_def static_fields_def Let_def effect_defs)

lemma static_set_temperature:
  "static_fields (final (set_temperature v kw s)) = static_fields s"
proof -
  obtain temp s1 where t: "set_temperature_temp kw s = (temp, s1)"
    by (cases "set_temperature_temp kw s")
  then have s1: "static_fields s1 = static_fields s"
    using static_set_temperature_temp [of kw s] by simp
  obtain d r where w: "write_target v (self_device s1) temp = (d, r)"
    by (cases "write_target v (self_device s1) temp")
  show ?thesis
  proof (cases r)
    case None
    with s1 show ?thesis
      by (simp add: set_temperature_def t device_target_assign_def w final_def
          static_fields_def)
  next
    case (Some e)
    with s1 show ?thesis
      by (cases e)
        (simp_all add: set_temperature_def t device_target_assign_def w final_def
          static_fields_def effect_defs)
  qed
qed

lemma static_set_operation_mode:
  "static_fields (final (set_operation_mode v m s)) = static_fields s"
  by (simp add: set_operation_mode_def device_mode_assign_def static_fields_def final_def
      Let_def effect_defs py_eq_str_def split: prod.splits option.splits)

lemma static_set_fan_mode:
  "static_fields (final (set_fan_mode v m s)) = static_fields s"
  by (simp add: set_fan_mode_def device_fan_assign_def static_fields_def final_def
      Let_def split: prod.splits option.splits)

lemma static_turn_away:
  "static_fields (final (turn_away_mode_on v s)) = static_fields s"
  "static_fields (final (turn_away_mode_off v s)) = static_fields s"
  by (simp_all add: turn_away_mode_on_def turn_away_mode_off_def structure_away_assign_def
      static_fields_def final_def Let_def split: prod.splits option.splits)

text \<open>
  C7: the feature flags, the operation list, the fan capability and the fan-mode list are
  left unchanged by \<^verbatim>\<open>update\<close>, \<^verbatim>\<open>set_temperature\<close>, \<^verbatim>\<open>set_operation_mode\<close>,
  \<^verbatim>\<open>set_fan_mode\<close> and the two away-mode commands, whatever the vendor does with the
  write and whether or not the command ends in an exception.
\<close>

theorem static_fields_never_modified:
  "static_fields (update s) = static_fields s \<and>
   static_fields (final (set_temperature v kw s)) = static_fields s \<and>
   static_fields (final (set_operation_mode v m s)) = static_fields s \<and>
   static_fields (final (set_fan_mode v fm s)) = static_fields s \<and>
   static_fields (final (turn_away_mode_on v s)) = static_fields s \<and>
   static_fields (final (turn_away_mode_off v s)) = static_fields s"
  by (simp add: static_update static_set_temperature static_set_operation_mode
      static_set_fan_mode static_turn_away)

subsection \<open>Setting the temperature\<close>

text \<open>
  C1: when \<^verbatim>\<open>set_temperature\<close> has a target to write and the vendor's write of it
  raises the API fault, the call returns normally; it has logged the error, scheduled one
  forced refresh and made that one write only, and no field of the adapter's cache has
  changed. The cached target temperature is still the old one, and after the refresh it
  is whatever the device's target then is.
\<close>

theorem set_temperature_api_fault:
  assumes temp: "set_temperature_temp kw s = (temp, s1)"
      and some: "temp \<noteq> PyNone"
      and fault: "write_target v (self_device s) temp = (d, Some (APIError msg))"
  shows "set_temperature v kw s =
           Inr (s\<lparr>self_device := d,
                  logged := logged s @
                    [LogDebug ''Nest set_temperature-output-value=%s'' temp,
                     LogError ''An error occurred while setting temperature: %s'' (PyStr msg)],
                  scheduled_updates := scheduled_updates s @ [True],
                  vendor_calls := vendor_calls s @ [SetTarget temp]\<rparr>) \<and>
         self_target_temperature (final (set_temperature v kw s)) =
           self_target_temperature s \<and>
         (\<forall>d'. self_target_temperature
                 (update ((final (set_temperature v kw s))\<lparr>self_device := d'\<rparr>)) = target d')"
proof -
  have s1: "s1 = s\<lparr>logged := logged s @
                 [LogDebug ''Nest set_temperature-output-value=%s'' temp]\<rparr>"
    using temp some
    by (auto simp add: set_temperature_temp_def Let_def effect_defs split: if_splits)
  have res: "set_temperature v kw s =
           Inr (s\<lparr>self_device := d,
                  logged := logged s @
                    [LogDebug ''Nest set_temperature-output-value=%s'' temp,
                     LogError ''An error occurred while setting temperature: %s'' (PyStr msg)],
                  scheduled_updates := scheduled_updates s @ [True],
                  vendor_calls := vendor_calls s @ [SetTarget temp]\<rparr>)"
    using some fault
    by (simp add: set_temperature_def temp device_target_assign_def s1 effect_defs)
  show ?thesis
    unfolding res by (simp add: final_def update_def)
qed

theorem set_temperature_api_fault_witness:
  "self_target_temperature
     (final (set_temperature (rejecting_vendor ''rejected'')
        [ATTR_TARGET_TEMP_LOW \<mapsto> PyNum 19, ATTR_TARGET_TEMP_HIGH \<mapsto> PyNum 23]
        (update example_thermostat))) = PyTuple [PyNum 18, PyNum 24] \<and>
   self_target_temperature
     (update ((final (set_temperature (rejecting_vendor ''rejected'')
        [ATTR_TARGET_TEMP_LOW \<mapsto> PyNum 19, ATTR_TARGET_TEMP_HIGH \<mapsto> PyNum 23]
        (update example_thermostat)))\<lparr>self_device := example_device\<rparr>)) =
     PyTuple [PyNum 18, PyNum 24] \<and>
   scheduled_updates
     (final (set_temperature (rejecting_vendor ''rejected'')
        [ATTR_TARGET_TEMP_LOW \<mapsto> PyNum 19, ATTR_TARGET_TEMP_HIGH \<mapsto> PyNum 23]
        (update example_thermostat))) = [True] \<and>
   vendor_calls
     (final (set_temperature (rejecting_vendor ''rejected'')
        [ATTR_TARGET_TEMP_LOW \<mapsto> PyNum 19, ATTR_TARGET_TEMP_HIGH \<mapsto> PyNum 23]
        (update example_thermostat))) = [SetTarget (PyTuple [PyNum 19, PyNum 23])]"
proof -
  let ?kw = "[ATTR_TARGET_TEMP_LOW \<mapsto> PyNum 19, ATTR_TARGET_TEMP_HIGH \<mapsto> PyNum 23]"
  let ?s = "update example_thermostat"
  have temp: "set_temperature_temp ?kw ?s =
      (PyTuple [PyNum 19, PyNum 23],
       log_debug ''Nest set_temperature-output-value=%s'' (PyTuple [PyNum 19, PyNum 23]) ?s)"
    by (simp add: set_temperature_temp_def kwargs_get_def update_example py_eq_str_def
        state_defs Let_def)
  have some: "PyTuple [PyNum 19, PyNum 23] \<noteq> PyNone"
    by simp
  have fault: "write_target (rejecting_vendor ''rejected'') (self_device ?s)
      (PyTuple [PyNum 19, PyNum 23]) = (self_device ?s, Some (APIError ''rejected''))"
    by (simp add: rejecting_vendor_def)
  have tgt: "target example_device = PyTuple [PyNum 18, PyNum 24]"
    by (simp add: example_device_def)
  have sched: "scheduled_updates ?s = []" and calls: "vendor_calls ?s = []"
    by (simp_all add: update_def example_thermostat_def NestThermostat_init_def Let_def)
  note th = set_temperature_api_fault [OF temp some fault]
  have c1: "self_target_temperature (final (set_temperature (rejecting_vendor ''rejected'')
      ?kw ?s)) = PyTuple [PyNum 18, PyNum 24]"
    using th [THEN conjunct2, THEN conjunct1] by (simp add: update_example)
  have c2: "self_target_temperature (update ((final (set_temperature
      (rejecting_vendor ''rejected'') ?kw ?s))\<lparr>self_device := example_device\<rparr>)) =
      PyTuple [PyNum 18, PyNum 24]"
    using th [THEN conjunct2, THEN conjunct2, THEN spec, of example_device]
    by (simp add: tgt)
  have c3: "scheduled_updates (final (set_temperature (rejecting_vendor ''rejected'')
      ?kw ?s)) = [True]"
    and c4: "vendor_calls (final (set_temperature (rejecting_vendor ''rejected'')
      ?kw ?s)) = [SetTarget (PyTuple [PyNum 19, PyNum 23])]"
    unfolding th [THEN conjunct1] by (simp_all add: final_def sched calls)
  from c1 c2 c3 c4 show ?thesis by simp
qed

text \<open>
  C10: when the required arguments are absent (in combined heat-cool mode the low or the
  high target, in every other mode the single target), \<^verbatim>\<open>set_temperature\<close> returns
  normally without calling the vendor: the device and every cache field are unchanged;
  outside heat-cool mode it has only written its debug record.
\<close>

theorem set_temperature_missing_arguments:
  assumes "if self_mode s = PyStr ''heat-cool''
           then kwargs_get kw ATTR_TARGET_TEMP_LOW = PyNone \<or>
                kwargs_get kw ATTR_TARGET_TEMP_HIGH = PyNone
           else kwargs_get kw ATTR_TEMPERATURE = PyNone"
  shows "set_temperature v kw s =
           Inr (s\<lparr>logged := logged s @
                    (if self_mode s = PyStr ''heat-cool'' then []
                     else [LogDebug ''Nest set_temperature-output-value=%s'' PyNone])\<rparr>) \<and>
         raised (set_temperature v kw s) = None \<and>
         vendor_calls (final (set_temperature v kw s)) = vendor_calls s \<and>
         self_device (final (set_temperature v kw s)) = self_device s"
proof -
  have temp: "set_temperature_temp kw s =
      (PyNone, s\<lparr>logged := logged s @
                    (if self_mode s = PyStr ''heat-cool'' then []
                     else [LogDebug ''Nest set_temperature-output-value=%s'' PyNone])\<rparr>)"
    using assms
    by (auto simp add: set_temperature_temp_def Let_def py_eq_str_def state_defs effect_defs
        split: if_splits)
  show ?thesis
    by (simp add: set_temperature_def temp raised_def final_def)
qed

theorem set_temperature_missing_arguments_witness:
  "set_temperature verbatim_vendor [ATTR_TARGET_TEMP_LOW \<mapsto> PyNum 19]
     (update example_thermostat) = Inr (update example_thermostat) \<and>
   vendor_calls (final (set_temperature verbatim_vendor [ATTR_TARGET_TEMP_LOW \<mapsto> PyNum 19]
     (update example_thermostat))) = []"
proof -
  have calls: "vendor_calls (update example_thermostat) = []"
    by (simp add: update_def example_thermostat_def NestThermostat_init_def Let_def)
  show ?thesis
    using set_temperature_missing_arguments [of "update example_thermostat"
        "[ATTR_TARGET_TEMP_LOW \<mapsto> PyNum 19]" verbatim_vendor]
    by (simp add: update_example kwargs_get_def calls final_def)
qed

subsection \<open>Setting the operation mode\<close>

lemma device_mode_assign_effects:
  "vendor_calls (final (device_mode_assign v x s)) = vendor_calls s @ [SetMode x] \<and>
   logged (final (device_mode_assign v x s)) = logged s \<and>
   self_device (final (device_mode_assign v x s)) = fst (write_mode v (self_device s) x) \<and>
   raised (device_mode_assign v x s) = snd (write_mode v (self_device s) x)"
  by (simp add: device_mode_assign_def final_def raised_def Let_def
      split: prod.splits option.splits)

text \<open>
  C2: for every string \<open>m\<close>, \<^verbatim>\<open>set_operation_mode\<close> makes exactly one write to the
  device's mode field, of the token the spec gives for \<open>m\<close>: \<open>m\<close> itself for heat, cool,
  off and eco, the combined heat-cool token for auto, and off for anything else, with an
  error logged in that last case only. The adapter raises nothing of its own: the only
  exception that can leave the call is the one the vendor's write raises, so over a
  device that stores the written value the mode field holds the token afterwards and the
  call returns normally, for a recognised and an unrecognised mode alike.
\<close>

theorem set_operation_mode_translation:
  "vendor_calls (final (set_operation_mode v m s)) =
     vendor_calls s @ [SetMode (PyStr (spec_device_mode m))] \<and>
   logged (final (set_operation_mode v m s)) =
     logged s @
       (if m \<in> {''heat'', ''cool'', ''off'', ''eco'', ''auto''} then []
        else [LogError (''An error occurred while setting device mode. '' @
                        ''Invalid operation mode: %s'') (PyStr m)]) \<and>
   self_device (final (set_operation_mode v m s)) =
     fst (write_mode v (self_device s) (PyStr (spec_device_mode m))) \<and>
   raised (set_operation_mode v m s) =
     snd (write_mode v (self_device s) (PyStr (spec_device_mode m))) \<and>
   mode (self_device (final (set_operation_mode verbatim_vendor m s))) =
     PyStr (spec_device_mode m) \<and>
   raised (set_operation_mode verbatim_vendor m s) = None \<and>
   spec_device_mode ''auto'' = ''heat-cool'' \<and>
   spec_device_mode ''bogus'' = ''off''"
proof -
  have eff: "vendor_calls (final (set_operation_mode v m s)) =
     vendor_calls s @ [SetMode (PyStr (spec_device_mode m))] \<and>
   logged (final (set_operation_mode v m s)) =
     logged s @
       (if m \<in> {''heat'', ''cool'', ''off'', ''eco'', ''auto''} then []
        else [LogError (''An error occurred while setting device mode. '' @
                        ''Invalid operation mode: %s'') (PyStr m)]) \<and>
   self_device (final (set_operation_mode v m s)) =
     fst (write_mode v (self_device s) (PyStr (spec_device_mode m))) \<and>
   raised (set_operation_mode v m s) =
     snd (write_mode v (self_device s) (PyStr (spec_device_mode m)))" for v
    by (simp add: set_operation_mode_def device_mode_assign_effects spec_device_mode_def
        py_eq_str_def state_defs effect_defs)
  have "mode (self_device (final (set_operation_mode verbatim_vendor m s))) =
          PyStr (spec_device_mode m)"
    and "raised (set_operation_mode verbatim_vendor m s) = None"
    by (simp_all add: eff verbatim_vendor_def)
  moreover have "spec_device_mode ''auto'' = ''heat-cool''"
    and "spec_device_mode ''bogus'' = ''off''"
    by (simp_all add: spec_device_mode_def)
  ultimately show ?thesis
    using eff [of v] by simp
qed

subsection \<open>Away mode\<close>

text \<open>
  C9: \<^verbatim>\<open>update\<close> sets the cached away flag to true exactly when the structure's away
  field equals the string away, while \<^verbatim>\<open>turn_away_mode_on\<close> and
  \<^verbatim>\<open>turn_away_mode_off\<close> write the booleans \<^verbatim>\<open>True\<close> and \<^verbatim>\<open>False\<close> to that
  field. Over a structure that stores the written value as it is,
  \<^verbatim>\<open>turn_away_mode_on\<close> followed by \<^verbatim>\<open>update\<close> therefore makes
  \<^verbatim>\<open>is_away_mode_on\<close> report false.
\<close>

theorem away_round_trip:
  assumes "write_away v = (\<lambda>st x. (st\<lparr>away := x\<rparr>, None))"
  shows "self_away (update s) = PyBool (away (self_structure s) = PyStr ''away'') \<and>
         vendor_calls (final (turn_away_mode_on v s)) =
           vendor_calls s @ [SetAway (PyBool True)] \<and>
         vendor_calls (final (turn_away_mode_off v s)) =
           vendor_calls s @ [SetAway (PyBool False)] \<and>
         raised (turn_away_mode_on v s) = None \<and>
         away (self_structure (final (turn_away_mode_on v s))) = PyBool True \<and>
         is_away_mode_on (update (final (turn_away_mode_on v s))) = PyBool False"
  using assms
  by (simp add: update_def py_eq_str_def turn_away_mode_on_def turn_away_mode_off_def
      structure_away_assign_def final_def raised_def is_away_mode_on_def)

theorem away_round_trip_witness:
  "is_away_mode_on (update (final (turn_away_mode_on verbatim_vendor example_thermostat))) =
     PyBool False"
  using away_round_trip [of verbatim_vendor example_thermostat]
  by (simp add: verbatim_vendor_def)

end
